theory Spec2Isabelle
  imports Main "HOL-Library.AList" "HOL-Library.Char_ord" "HOL-Library.List_Lexorder"
begin

section \<open>Python values used by the runner package\<close>

text \<open>
  The three modules of \<^verbatim>\<open>dynx.runner\<close> are embedded function by function. Mutation of
  an object becomes an updated record that the function returns, a dictionary becomes a
  partial map (or an association list where the iteration order of the dictionary is
  observable), an exception becomes a value of \<open>exn\<close>, and an object whose identity
  matters (a loaded model) lives in an explicit heap and is passed around by address.
\<close>

subsection \<open>Exceptions\<close>

text \<open>
  The exceptions that reach the code: \<open>AttributeError\<close> (a missing attribute), the two
  failures of the external loader, an arbitrary exception below \<^verbatim>\<open>Exception\<close>
  (\<open>RuntimeError\<close>) and one that is a \<^verbatim>\<open>BaseException\<close> only (\<open>KeyboardInterrupt\<close>),
  which \<^verbatim>\<open>except Exception\<close> does not catch.
\<close>

datatype exn = AttributeError | ModelUnavailable | InvalidParameters | RuntimeError
  | KeyboardInterrupt

fun is_Exception :: "exn \<Rightarrow> bool" where
  "is_Exception KeyboardInterrupt = False"
| "is_Exception _ = True"

text \<open>The outcome of a call: it raises, or it returns a value.\<close>

datatype 'a outcome = Raise exn | Return 'a

subsection \<open>Strings of integers, and join\<close>

definition digit_char :: "nat \<Rightarrow> char" where
  "digit_char d = ''0123456789'' ! (d mod 10)"

function str_nat :: "nat \<Rightarrow> string" where
  "str_nat n = (if n < 10 then [digit_char n] else str_nat (n div 10) @ [digit_char n])"
  by pat_completeness auto
termination
  by (relation "measure id") auto

declare str_nat.simps [simp del]

text \<open>\<^verbatim>\<open>str(i)\<close> for a Python int.\<close>

definition str_int :: "int \<Rightarrow> string" where
  "str_int i = (if i < 0 then CHR ''-'' # str_nat (nat (- i)) else str_nat (nat i))"

text \<open>\<^verbatim>\<open>sep.join(xs)\<close>.\<close>

fun join :: "string \<Rightarrow> string list \<Rightarrow> string" where
  "join sep [] = []"
| "join sep [x] = x"
| "join sep (x # y # ys) = x @ sep @ join sep (y # ys)"

section \<open>metric\_requirements.py\<close>

text \<open>
  A stage list of \<open>None\<close> stands for "all stages of the period". A dictionary from periods
  to stage lists is an association list in insertion order; the sets the function builds
  are duplicate-free lists, sorted when they are converted back.
\<close>

type_synonym stage_list = "string list option"
type_synonym stages_dict = "(int \<times> stage_list) list"

definition METRIC_REQUIREMENTS :: "(string \<times> (int list \<times> stages_dict)) list" where
  "METRIC_REQUIREMENTS =
    [(''euler_error'', ([0, 1], [(0, Some [''OWNC'']), (1, None)])),
     (''dev_c_L2'', ([0], [(0, Some [''OWNC''])])),
     (''dev_c_Linf'', ([0], [(0, Some [''OWNC''])])),
     (''dev_a_L2'', ([0], [(0, Some [''OWNC''])])),
     (''dev_a_Linf'', ([0], [(0, Some [''OWNC''])])),
     (''dev_v_L2'', ([0], [(0, Some [''OWNC''])])),
     (''dev_v_Linf'', ([0], [(0, Some [''OWNC''])])),
     (''dev_pol_L2'', ([0], [(0, Some [''OWNC''])])),
     (''dev_pol_Linf'', ([0], [(0, Some [''OWNC''])])),
     (''plot_egm'', ([0], [(0, Some [''OWNC''])])),
     (''plot_policy'', ([0], [(0, Some [''TENU'', ''OWNH'', ''OWNC'', ''RNTH'', ''RNTC''])])),
     (''plot_value_q'', ([0], [(0, Some [''OWNC''])])),
     (''plot_c_comparison'', ([0], [(0, Some [''OWNC''])])),
     (''plot_v_comparison'', ([0], [(0, Some [''OWNC''])])),
     (''plot_a_comparison'', ([0], [(0, Some [''OWNC''])])),
     (''plot_h_comparison'', ([0], [(0, Some [''OWNH''])]))]"


text \<open>\<^verbatim>\<open>s.update(xs)\<close> on a set kept as a duplicate-free list.\<close>

definition set_update :: "'a list \<Rightarrow> 'a list \<Rightarrow> 'a list" where
  "set_update s xs = fold List.insert xs s"

text \<open>
  The body of the inner loop \<^verbatim>\<open>for period, stage_list in stages.items()\<close>: the entry of
  \<open>period\<close> is created if absent (an empty set, or \<open>None\<close> when all stages are asked
  for), then extended, or overwritten by \<open>None\<close>.
\<close>

definition add_stage_list :: "int \<times> stage_list \<Rightarrow> stages_dict \<Rightarrow> stages_dict" where
  "add_stage_list entry stages_by_period =
    (let period = fst entry; stage_list = snd entry;
         d = (if map_of stages_by_period period = None
              then AList.update period (if stage_list \<noteq> None then Some [] else None)
                     stages_by_period
              else stages_by_period)
     in case stage_list of
          Some sl \<Rightarrow>
            (case map_of d period of
               Some (Some s) \<Rightarrow> AList.update period (Some (set_update s sl)) d
             | _ \<Rightarrow> d)
        | None \<Rightarrow> AList.update period None d)"

text \<open>The body of the outer loop \<^verbatim>\<open>for metric in metric_names\<close>.\<close>

definition add_metric :: "string \<Rightarrow> int list \<times> stages_dict \<Rightarrow> int list \<times> stages_dict" where
  "add_metric metric acc =
    (case map_of METRIC_REQUIREMENTS metric of
       None \<Rightarrow> acc
     | Some (periods, stages) \<Rightarrow>
         (set_update (fst acc) periods, fold add_stage_list stages (snd acc)))"

text \<open>
  \<open>get_metric_requirements\<close>. Each component of the returned pair is \<open>None\<close> (Python's
  \<^verbatim>\<open>None\<close>) or a value: the guard \<^verbatim>\<open>if not metric_names: return None, None\<close> comes first.
\<close>

definition get_metric_requirements :: "string list \<Rightarrow> int list option \<times> stages_dict option" where
  "get_metric_requirements metric_names =
    (if metric_names = [] then (None, None)
     else
       (let acc = fold add_metric metric_names ([], []);
            periods_to_load = sort (fst acc);
            stages_to_load = map (\<lambda>(p, stages). (p, map_option sort stages)) (snd acc)
        in (Some periods_to_load, Some stages_to_load)))"

definition is_comparison_metric :: "string \<Rightarrow> bool" where
  "is_comparison_metric metric_name =
    (take 4 metric_name = ''dev_'' \<or> take 5 metric_name = ''plot_'')"

section \<open>The structure of a model\<close>

text \<open>
  An attribute of a Python object is absent (\<^verbatim>\<open>hasattr\<close> is false), holds \<^verbatim>\<open>None\<close>, or
  holds a value.
\<close>

datatype 'a attr = Absent | PyNone | Obj 'a

text \<open>An array is known by its contents only; this code never reads an entry.\<close>

type_synonym ndarray = "int list"

text \<open>The object \<^verbatim>\<open>perch.sol._jit\<close>: the arrays of a solution.\<close>

record jit_obj =
  Q :: "ndarray attr"
  lambda_arr :: "ndarray attr"
  vlu :: "ndarray attr"
  policy :: "ndarray attr"

text \<open>
  A solution object has an optional \<^verbatim>\<open>_jit\<close> attribute (\<open>None\<close> when it has none) and an
  \<^verbatim>\<open>EGM\<close> attribute. A \<open>Faulty\<close> solution object raises the given exception on every
  attribute access.
\<close>

datatype sol_obj = Sol (jit: "jit_obj option") (EGM: "ndarray attr") | Faulty exn

record perch =
  sol :: "sol_obj attr"

text \<open>
  The containers are read with \<^verbatim>\<open>getattr(obj, name, default)\<close>, so each may lack its
  attribute (\<open>None\<close> here); the dictionaries are association lists in iteration order.
\<close>

record stage =
  perches :: "(string \<times> perch) list option"

record period =
  stages :: "(string \<times> stage) list option"

record model =
  periods_list :: "period list option"
  priv_bundle_path :: "string option"
  bundle_path :: "string option"

text \<open>
  The fields \<open>priv_bundle_path\<close> and \<open>bundle_path\<close> are the attributes \<^verbatim>\<open>_bundle_path\<close> and
  \<^verbatim>\<open>bundle_path\<close>: \<open>None\<close> when the attribute is absent, otherwise the \<^verbatim>\<open>str()\<close> of its
  value.
\<close>











section \<open>reference\_cache.py: the memory trimmer\<close>

text \<open>\<^verbatim>\<open>if hasattr(o, name): o.name = None\<close>.\<close>

fun clear_attr :: "'a attr \<Rightarrow> 'a attr" where
  "clear_attr Absent = Absent"
| "clear_attr _ = PyNone"

definition trim_jit :: "jit_obj \<Rightarrow> jit_obj" where
  "trim_jit j = j\<lparr>Q := clear_attr (Q j), lambda_arr := clear_attr (lambda_arr j),
                  vlu := clear_attr (vlu j)\<rparr>"

text \<open>
  A \<^verbatim>\<open>for\<close> loop whose body updates the element in place and may raise: the loop stops at
  the first exception, the elements after it are not visited.
\<close>

fun for_each :: "('a \<Rightarrow> 'a \<times> exn option) \<Rightarrow> 'a list \<Rightarrow> 'a list \<times> exn option" where
  "for_each body [] = ([], None)"
| "for_each body (x # xs) =
    (case body x of
       (x', Some e) \<Rightarrow> (x' # xs, Some e)
     | (x', None) \<Rightarrow> (case for_each body xs of (xs', r) \<Rightarrow> (x' # xs', r)))"

text \<open>The body of the innermost loop, lines 69 to 83, on the solution object.\<close>

fun trim_sol :: "sol_obj \<Rightarrow> sol_obj \<times> exn option" where
  "trim_sol (Sol j e) = (Sol (map_option trim_jit j) (clear_attr e), None)"
| "trim_sol (Faulty x) = (Faulty x, if x = AttributeError then None else Some x)"

definition trim_perch :: "perch \<Rightarrow> perch \<times> exn option" where
  "trim_perch p =
    (case sol p of
       Obj s \<Rightarrow> (case trim_sol s of (s', r) \<Rightarrow> (p\<lparr>sol := Obj s'\<rparr>, r))
     | _ \<Rightarrow> (p, None))"

definition trim_stage :: "stage \<Rightarrow> stage \<times> exn option" where
  "trim_stage st =
    (case perches st of
       None \<Rightarrow> (st, None)
     | Some ps \<Rightarrow>
         (case for_each (\<lambda>(perch_name, p). case trim_perch p of (p', r) \<Rightarrow> ((perch_name, p'), r)) ps
          of (ps', r) \<Rightarrow> (st\<lparr>perches := Some ps'\<rparr>, r)))"

definition trim_period :: "period \<Rightarrow> period \<times> exn option" where
  "trim_period pd =
    (case stages pd of
       None \<Rightarrow> (pd, None)
     | Some ss \<Rightarrow>
         (case for_each (\<lambda>(stage_name, st). case trim_stage st of (st', r) \<Rightarrow> ((stage_name, st'), r)) ss
          of (ss', r) \<Rightarrow> (pd\<lparr>stages := Some ss'\<rparr>, r)))"

definition trim_model :: "model \<Rightarrow> model \<times> exn option" where
  "trim_model m =
    (case periods_list m of
       None \<Rightarrow> (m, None)
     | Some pds \<Rightarrow>
         (case for_each trim_period pds of (pds', r) \<Rightarrow> (m\<lparr>periods_list := Some pds'\<rparr>, r)))"

text \<open>
  \<open>_cleanup_model_memory\<close>, on the contents of the model (\<open>None\<close> is Python's \<^verbatim>\<open>None\<close>).
  The result is the model as the call leaves it and the exception that leaves the call, if
  any: \<^verbatim>\<open>except Exception\<close> swallows an exception of the walk unless it is not an
  \<^verbatim>\<open>Exception\<close>. The call \<^verbatim>\<open>gc.collect()\<close> does not change the model.
\<close>

definition cleanup_model_memory :: "model option \<Rightarrow> model option \<times> exn option" where
  "cleanup_model_memory model =
    (case model of
       None \<Rightarrow> (None, None)
     | Some m \<Rightarrow>
         (case trim_model m of
            (m', None) \<Rightarrow> (Some m', None)
          | (m', Some e) \<Rightarrow> (Some m', if is_Exception e then None else Some e)))"

section \<open>Objects with identity: the heap, the runner, the external loader\<close>

text \<open>
  A loaded model is an object: two models with equal contents are still two instances.
  The heap maps the address of every live model to its contents; a model that has been
  garbage collected is no longer in the heap. Addresses are handed out in increasing order
  (\<open>next_id\<close>) and never reused, so a weak reference whose target has died stays dead.
  \<open>loader_calls\<close> counts the invocations of the external loader.
\<close>

type_synonym addr = nat

record world =
  heap :: "addr \<rightharpoonup> model"
  next_id :: addr
  loader_calls :: nat

text \<open>Calling a weak reference: the object if it is alive, \<^verbatim>\<open>None\<close> otherwise.\<close>

definition weak_deref :: "world \<Rightarrow> addr \<Rightarrow> addr option" where
  "weak_deref w ref_weak = (if heap w ref_weak = None then None else Some ref_weak)"

definition new_object :: "model \<Rightarrow> world \<Rightarrow> addr \<times> world" where
  "new_object m w =
    (next_id w, w\<lparr>heap := (heap w)(next_id w \<mapsto> m), next_id := Suc (next_id w)\<rparr>)"

text \<open>
  What the code reads of the runner: the attribute \<^verbatim>\<open>baseline_method\<close> (\<open>None\<close> when the
  runner has no such attribute) and the attribute \<^verbatim>\<open>ref_params\<close>, kept as the bytes
  \<^verbatim>\<open>pickle.dumps\<close> makes of it (\<open>None\<close> when the attribute is absent or \<^verbatim>\<open>None\<close>).
\<close>

record runner =
  baseline_method :: "string option"
  ref_params :: "string option"

text \<open>
  The functions of \<^verbatim>\<open>reference_utils\<close>, \<^verbatim>\<open>pickle\<close> and \<^verbatim>\<open>hashlib\<close> are not part of this
  package; they are parameters. \<open>ref_bundle_path\<close> yields a \<^verbatim>\<open>Path\<close> (here its
  \<^verbatim>\<open>str()\<close>; a \<^verbatim>\<open>Path\<close> is always truthy) or \<^verbatim>\<open>None\<close>. The loader raises, returns
  \<^verbatim>\<open>None\<close>, or returns the contents of a model, for which the call creates a new object.
\<close>

record 'x env =
  ref_bundle_path :: "runner \<Rightarrow> 'x \<Rightarrow> string option"
  load_reference_model :: "runner \<Rightarrow> 'x \<Rightarrow> int list \<times> stages_dict \<Rightarrow> exn + model option"
  pickle_dumps :: "'x \<Rightarrow> string"
  md5_hexdigest :: "string \<Rightarrow> string"

definition call_loader ::
  "'x env \<Rightarrow> runner \<Rightarrow> 'x \<Rightarrow> int list \<times> stages_dict \<Rightarrow> world \<Rightarrow> addr option outcome \<times> world" where
  "call_loader env rnr x requirements w =
    (let w1 = w\<lparr>loader_calls := Suc (loader_calls w)\<rparr>
     in case load_reference_model env rnr x requirements of
          Inl e \<Rightarrow> (Raise e, w1)
        | Inr None \<Rightarrow> (Return None, w1)
        | Inr (Some m) \<Rightarrow> (case new_object m w1 of (a, w2) \<Rightarrow> (Return (Some a), w2)))"

section \<open>reference\_cache.py: ReferenceModelCache\<close>

text \<open>
  The three dictionaries of the cache. A value of \<open>cache\<close> is a weak reference (the address
  it points to, dead or alive), a value of \<open>strong_refs\<close> is the object itself.
\<close>

record ReferenceModelCache =
  cache :: "string \<rightharpoonup> addr"
  strong_refs :: "string \<rightharpoonup> addr"
  access_count :: "string \<rightharpoonup> nat"

definition ReferenceModelCache_init :: ReferenceModelCache where
  "ReferenceModelCache_init = \<lparr>cache = Map.empty, strong_refs = Map.empty, access_count = Map.empty\<rparr>"

definition get_cache_key :: "'x env \<Rightarrow> runner \<Rightarrow> 'x \<Rightarrow> string" where
  "get_cache_key env rnr x =
    (case ref_bundle_path env rnr x of
       Some ref_path \<Rightarrow> ref_path
     | None \<Rightarrow>
         (case ref_params rnr of
            Some param_bytes \<Rightarrow> ''ref_'' @ take 16 (md5_hexdigest env param_bytes)
          | None \<Rightarrow> ''ref_fallback_'' @ take 16 (md5_hexdigest env (pickle_dumps env x))))
    @ ''_superset_p0-1''"

text \<open>\<open>_cleanup_model_memory\<close> applied to the object at an address: it is mutated in place.\<close>

definition cleanup_object :: "world \<Rightarrow> addr \<Rightarrow> world \<times> exn option" where
  "cleanup_object w a =
    (case cleanup_model_memory (heap w a) of (m', r) \<Rightarrow> (w\<lparr>heap := (heap w)(a := m')\<rparr>, r))"

text \<open>
  The names an instance of the class answers to: the attributes set by \<open>__init__\<close> and the
  functions defined in the class body (lines 24 to 160). The function
  \<open>_get_superset_requirements\<close> is defined at lines 196 to 214, indented inside the body of the
  module-level function \<open>release_strong_references\<close>: it is a local function of that function
  and not an attribute of the class.
\<close>

definition ReferenceModelCache_attributes :: "string list" where
  "ReferenceModelCache_attributes =
    [''_cache'', ''_strong_refs'', ''_access_count'', ''__init__'', ''get_cache_key'',
     ''_cleanup_model_memory'', ''get'', ''clear_strong_refs'', ''clear'']"

text \<open>What the nested function \<open>_get_superset_requirements\<close> returns.\<close>

definition nested_get_superset_requirements :: "int list \<times> stages_dict" where
  "nested_get_superset_requirements =
    ([0, 1], [(0, Some [''OWNC'', ''OWNH'', ''TENU'', ''RNTH'', ''RNTC'']), (1, None)])"

text \<open>\<^verbatim>\<open>self._access_count[cache_key] = self._access_count.get(cache_key, 0) + 1\<close>.\<close>

definition count_access :: "(string \<rightharpoonup> nat) \<Rightarrow> string \<Rightarrow> (string \<rightharpoonup> nat)" where
  "count_access counts cache_key =
    counts(cache_key \<mapsto> (case counts cache_key of None \<Rightarrow> 0 | Some n \<Rightarrow> n) + 1)"

text \<open>
  Lines 107 to 145 of \<open>get\<close>, from the cache key on, given the superset requirements. The
  two log lines of the hit branch are left out.
\<close>

definition get_from_cache_key ::
  "'x env \<Rightarrow> ReferenceModelCache \<Rightarrow> world \<Rightarrow> runner \<Rightarrow> 'x \<Rightarrow> bool \<Rightarrow> int list \<times> stages_dict
    \<Rightarrow> addr option outcome \<times> ReferenceModelCache \<times> world" where
  "get_from_cache_key env self w rnr x cleanup_for_metrics superset_requirements =
    (let cache_key = get_cache_key env rnr x
     in case (case cache self cache_key of None \<Rightarrow> None | Some ref_weak \<Rightarrow> weak_deref w ref_weak) of
          Some model \<Rightarrow>
            (Return (Some model),
             self\<lparr>access_count := count_access (access_count self) cache_key\<rparr>, w)
        | None \<Rightarrow>
            (let self1 = (if cache self cache_key = None then self
                          else self\<lparr>cache := (cache self)(cache_key := None),
                                    access_count := (access_count self)(cache_key := None)\<rparr>)
             in case call_loader env rnr x superset_requirements w of
                  (Raise e, w1) \<Rightarrow> (Raise e, self1, w1)
                | (Return None, w1) \<Rightarrow> (Return None, self1, w1)
                | (Return (Some model), w1) \<Rightarrow>
                    (case (if cleanup_for_metrics then cleanup_object w1 model else (w1, None)) of
                       (w2, Some e) \<Rightarrow> (Raise e, self1, w2)
                     | (w2, None) \<Rightarrow>
                         (Return (Some model),
                          self1\<lparr>cache := (cache self1)(cache_key \<mapsto> model),
                                strong_refs := (strong_refs self1)(cache_key \<mapsto> model),
                                access_count := (access_count self1)(cache_key \<mapsto> 1)\<rparr>,
                          w2))))"

text \<open>
  \<open>ReferenceModelCache.get\<close>. Its first statement evaluates
  \<^verbatim>\<open>self._get_superset_requirements\<close>, which raises \<open>AttributeError\<close> unless the instance
  has that attribute. The argument \<open>metric_requirements\<close> is never read.
\<close>

definition get ::
  "'x env \<Rightarrow> ReferenceModelCache \<Rightarrow> world \<Rightarrow> runner \<Rightarrow> 'x \<Rightarrow> (int list \<times> stages_dict) option \<Rightarrow> bool
    \<Rightarrow> addr option outcome \<times> ReferenceModelCache \<times> world" where
  "get env self w rnr x metric_requirements cleanup_for_metrics =
    (if ''_get_superset_requirements'' \<in> set ReferenceModelCache_attributes
     then get_from_cache_key env self w rnr x cleanup_for_metrics nested_get_superset_requirements
     else (Raise AttributeError, self, w))"

text \<open>
  \<open>clear_strong_refs\<close> and \<open>clear\<close> end with \<^verbatim>\<open>gc.collect()\<close>. Which objects die then depends on
  the references held outside the cache, which the heap does not record: the set of objects
  that die is a parameter.
\<close>

definition collect :: "addr set \<Rightarrow> world \<Rightarrow> world" where
  "collect dead w = w\<lparr>heap := (\<lambda>a. if a \<in> dead then None else heap w a)\<rparr>"

definition ReferenceModelCache_clear_strong_refs ::
  "ReferenceModelCache \<Rightarrow> world \<Rightarrow> addr set \<Rightarrow> ReferenceModelCache \<times> world" where
  "ReferenceModelCache_clear_strong_refs self w dead =
    (self\<lparr>strong_refs := Map.empty\<rparr>, collect dead w)"

definition ReferenceModelCache_clear ::
  "ReferenceModelCache \<Rightarrow> world \<Rightarrow> addr set \<Rightarrow> ReferenceModelCache \<times> world" where
  "ReferenceModelCache_clear self w dead =
    (self\<lparr>cache := Map.empty, strong_refs := Map.empty, access_count := Map.empty\<rparr>,
     collect dead w)"

section \<open>model\_cache.py: UnifiedModelCache\<close>

text \<open>The class has the three dictionaries of the reference cache and \<open>_method_to_model\<close>.\<close>

record UnifiedModelCache = ReferenceModelCache +
  method_to_model :: "string \<rightharpoonup> string"

definition UnifiedModelCache_init :: UnifiedModelCache where
  "UnifiedModelCache_init =
    \<lparr>cache = Map.empty, strong_refs = Map.empty, access_count = Map.empty,
     method_to_model = Map.empty\<rparr>"

definition get_model_cache_key :: "string \<Rightarrow> int list option \<Rightarrow> string" where
  "get_model_cache_key model_id periods =
    (case periods of
       None \<Rightarrow> model_id @ ''_full''
     | Some ps \<Rightarrow> model_id @ ''_p'' @ join ''-'' (map str_int (sort ps)))"

text \<open>\<^verbatim>\<open>getattr\<close> of an optional attribute of the model at an address.\<close>

definition model_attr :: "world \<Rightarrow> addr \<Rightarrow> (model \<Rightarrow> string option) \<Rightarrow> string option" where
  "model_attr w a field = (case heap w a of None \<Rightarrow> None | Some m \<Rightarrow> field m)"

definition register_method_model ::
  "UnifiedModelCache \<Rightarrow> world \<Rightarrow> string \<Rightarrow> addr \<Rightarrow> int list option \<Rightarrow> UnifiedModelCache" where
  "register_method_model self w method model periods =
    (let model_id =
           (case model_attr w model priv_bundle_path of
              Some p \<Rightarrow> p
            | None \<Rightarrow>
                (case model_attr w model bundle_path of
                   Some p \<Rightarrow> p
                 | None \<Rightarrow> method @ ''_bundle''));
         cache_key = get_model_cache_key model_id periods;
         self1 = self\<lparr>cache := (cache self)(cache_key \<mapsto> model),
                      strong_refs := (strong_refs self)(cache_key \<mapsto> model),
                      access_count := (access_count self)(cache_key \<mapsto> 1),
                      method_to_model := (method_to_model self)(method \<mapsto> cache_key)\<rparr>
     in if periods = Some [0, 1] \<or> periods = None
        then (let superset_key = get_model_cache_key model_id (Some [0, 1]) @ ''_superset_p0-1''
              in self1\<lparr>cache := (cache self1)(superset_key \<mapsto> model)\<rparr>)
        else self1)"

text \<open>\<^verbatim>\<open>getattr(runner, 'baseline_method', 'VFI_HD_GRID')\<close>.\<close>

definition baseline_of :: "runner \<Rightarrow> string" where
  "baseline_of rnr = (case baseline_method rnr of None \<Rightarrow> ''VFI_HD_GRID'' | Some m \<Rightarrow> m)"

text \<open>
  Lines 112 to 118 of \<open>get_reference_model\<close>: the cache key and the live model registered for
  the baseline method, if there is one.
\<close>

definition lookup_baseline :: "UnifiedModelCache \<Rightarrow> world \<Rightarrow> runner \<Rightarrow> (string \<times> addr) option" where
  "lookup_baseline self w rnr =
    (case method_to_model self (baseline_of rnr) of
       None \<Rightarrow> None
     | Some cache_key \<Rightarrow>
         (case cache self cache_key of
            None \<Rightarrow> None
          | Some ref_weak \<Rightarrow>
              (case weak_deref w ref_weak of
                 None \<Rightarrow> None
               | Some model \<Rightarrow> Some (cache_key, model))))"

text \<open>Lines 126 to 132: the superset key of the reference path and the live model under it.\<close>

definition lookup_superset :: "UnifiedModelCache \<Rightarrow> world \<Rightarrow> string option \<Rightarrow> (string \<times> addr) option" where
  "lookup_superset self w ref_path =
    (case ref_path of
       None \<Rightarrow> None
     | Some p \<Rightarrow>
         (let cache_key = get_model_cache_key p (Some [0, 1]) @ ''_superset_p0-1''
          in case cache self cache_key of
               None \<Rightarrow> None
             | Some ref_weak \<Rightarrow>
                 (case weak_deref w ref_weak of
                    None \<Rightarrow> None
                  | Some model \<Rightarrow> Some (cache_key, model))))"

text \<open>\<open>UnifiedModelCache.get_reference_model\<close>. The argument \<open>requirements\<close> is never read.\<close>

definition get_reference_model ::
  "'x env \<Rightarrow> UnifiedModelCache \<Rightarrow> world \<Rightarrow> runner \<Rightarrow> 'x \<Rightarrow> (int list \<times> stages_dict) option
    \<Rightarrow> addr option outcome \<times> UnifiedModelCache \<times> world" where
  "get_reference_model env self w rnr x requirements =
    (case lookup_baseline self w rnr of
       Some (cache_key, model) \<Rightarrow>
         (Return (Some model), self\<lparr>access_count := count_access (access_count self) cache_key\<rparr>, w)
     | None \<Rightarrow>
         (let ref_path = ref_bundle_path env rnr x
          in case lookup_superset self w ref_path of
               Some (cache_key, model) \<Rightarrow>
                 (Return (Some model),
                  self\<lparr>access_count := count_access (access_count self) cache_key\<rparr>, w)
             | None \<Rightarrow>
                 (let superset_requirements =
                        ([0, 1], [(0, Some [''OWNC'', ''OWNH'', ''TENU'', ''RNTH'', ''RNTC'']), (1, None)])
                  in case call_loader env rnr x superset_requirements w of
                       (Raise e, w1) \<Rightarrow> (Raise e, self, w1)
                     | (Return None, w1) \<Rightarrow> (Return None, self, w1)
                     | (Return (Some model), w1) \<Rightarrow>
                         (case ref_path of
                            None \<Rightarrow> (Return (Some model), self, w1)
                          | Some p \<Rightarrow>
                              (let cache_key = get_model_cache_key p (Some [0, 1]) @ ''_superset_p0-1''
                               in (Return (Some model),
                                   self\<lparr>cache := (cache self)(cache_key \<mapsto> model),
                                        strong_refs := (strong_refs self)(cache_key \<mapsto> model),
                                        access_count := (access_count self)(cache_key \<mapsto> 1)\<rparr>,
                                   w1))))))"






section \<open>Predicates and sample objects used in the statements\<close>






definition empty_model :: model where
  "empty_model = \<lparr>periods_list = None, priv_bundle_path = None, bundle_path = None\<rparr>"

definition fixed_env :: "string option \<Rightarrow> exn + model option \<Rightarrow> nat list env" where
  "fixed_env path loaded =
    \<lparr>ref_bundle_path = (\<lambda>rnr x. path), load_reference_model = (\<lambda>rnr x requirements. loaded),
     pickle_dumps = (\<lambda>x. []), md5_hexdigest = (\<lambda>bytes. [])\<rparr>"

definition default_runner :: runner where
  "default_runner = \<lparr>baseline_method = None, ref_params = None\<rparr>"

definition empty_world :: world where
  "empty_world = \<lparr>heap = Map.empty, next_id = 0, loader_calls = 0\<rparr>"

definition one_model_world :: world where
  "one_model_world = \<lparr>heap = [0 \<mapsto> empty_model], next_id = 1, loader_calls = 0\<rparr>"

definition one_entry_cache :: "string \<Rightarrow> addr \<Rightarrow> ReferenceModelCache" where
  "one_entry_cache cache_key a =
    \<lparr>cache = [cache_key \<mapsto> a], strong_refs = [cache_key \<mapsto> a], access_count = [cache_key \<mapsto> 1]\<rparr>"

section \<open>Properties of the requirement catalog\<close>

text \<open>
  C9, as the specification states it: the requirement of an empty list of metric names is
  the empty requirement, an empty list of periods and an empty stage mapping. The code
  returns something else at the empty list.
\<close>

theorem C9_empty_requirement_counterexample:
  "get_metric_requirements [] \<noteq> (Some [], Some [])"
  by (simp add: get_metric_requirements_def)

text \<open>
  C9, amended: for the empty list of metric names \<open>get_metric_requirements\<close> does not fail;
  it returns the pair \<^verbatim>\<open>(None, None)\<close>, both the period list and the stage mapping absent,
  not empty collections.
\<close>

theorem C9_empty_input_returns_None_pair:
  "get_metric_requirements [] = (None, None)"
  by (simp add: get_metric_requirements_def)

section \<open>Properties of the memory trimmer\<close>




















section \<open>Lemmas on the lookups of the unified cache\<close>

lemma superset_key_string:
  "get_model_cache_key p (Some [0, 1]) @ ''_superset_p0-1'' = p @ ''_p0-1_superset_p0-1''"
  by (simp add: get_model_cache_key_def str_int_def str_nat.simps digit_char_def)






section \<open>Properties of the reference cache and of the baseline registration\<close>

text \<open>
  C2: for every cache, heap, runner and parameter vector, \<open>ReferenceModelCache.get\<close> raises
  \<open>AttributeError\<close> and leaves the cache and the heap (and so the count of loader calls) as
  they were: neither the cache nor the loader is consulted.
\<close>

theorem C2_get_always_raises_AttributeError:
  "get env self w rnr x metric_requirements cleanup_for_metrics = (Raise AttributeError, self, w)"
  by (simp add: get_def ReferenceModelCache_attributes_def)

lemma get_from_cache_key_hit:
  assumes "cache self (get_cache_key env rnr x) = Some a" and "heap w a \<noteq> None"
  shows "get_from_cache_key env self w rnr x cleanup superset
     = (Return (Some a),
        self\<lparr>access_count := count_access (access_count self) (get_cache_key env rnr x)\<rparr>, w)"
  using assms by (auto simp: get_from_cache_key_def Let_def weak_deref_def)

lemma get_from_cache_key_miss:
  assumes "cache self (get_cache_key env rnr x) = None"
    and "load_reference_model env rnr x superset = Inr (Some m)"
  shows "\<exists>self' w'. get_from_cache_key env self w rnr x False superset
        = (Return (Some (next_id w)), self', w')
     \<and> heap w' (next_id w) = Some m
     \<and> cache self' (get_cache_key env rnr x) = Some (next_id w)
     \<and> strong_refs self' (get_cache_key env rnr x) = Some (next_id w)
     \<and> access_count self' (get_cache_key env rnr x) = Some 1"
  using assms by (simp add: get_from_cache_key_def Let_def call_loader_def new_object_def)

text \<open>
  C1 describes what lines 107 to 145 of \<open>get\<close> do (the two lemmas above), but no call reaches
  them. At a cache that holds a live model under the key of the request, \<open>get\<close> raises
  \<open>AttributeError\<close>, returns no model and does not count the access; at the empty cache it
  raises as well and the loader is not called.
\<close>

theorem C1_get_raises_on_hit_and_on_miss:
  "get_cache_key (fixed_env (Some ''/b'') (Inr (Some empty_model))) default_runner [] = ''/b_superset_p0-1''
   \<and> cache (one_entry_cache ''/b_superset_p0-1'' 0) ''/b_superset_p0-1'' = Some 0
   \<and> weak_deref one_model_world 0 = Some 0
   \<and> get (fixed_env (Some ''/b'') (Inr (Some empty_model))) (one_entry_cache ''/b_superset_p0-1'' 0)
        one_model_world default_runner [] None True
      = (Raise AttributeError, one_entry_cache ''/b_superset_p0-1'' 0, one_model_world)
   \<and> get (fixed_env (Some ''/b'') (Inr (Some empty_model))) ReferenceModelCache_init
        empty_world default_runner [] None True
      = (Raise AttributeError, ReferenceModelCache_init, empty_world)"
  by (simp add: get_def ReferenceModelCache_attributes_def get_cache_key_def fixed_env_def
      one_entry_cache_def weak_deref_def one_model_world_def)

text \<open>
  C3, as the specification states it, fails: for a request whose bundle path is \<^verbatim>\<open>/b\<close>,
  \<open>get_cache_key\<close> yields \<^verbatim>\<open>/b_superset_p0-1\<close>, while \<open>get_reference_model\<close> stores the model
  it loads under \<^verbatim>\<open>/b_p0-1_superset_p0-1\<close> and has no entry under the key of
  \<open>get_cache_key\<close>.
\<close>

theorem C3_keys_differ_counterexample:
  "get_cache_key (fixed_env (Some ''/b'') (Inr (Some empty_model))) default_runner [] = ''/b_superset_p0-1''
   \<and> fst (get_reference_model (fixed_env (Some ''/b'') (Inr (Some empty_model)))
         UnifiedModelCache_init empty_world default_runner [] None) = Return (Some 0)
   \<and> cache (fst (snd (get_reference_model (fixed_env (Some ''/b'') (Inr (Some empty_model)))
         UnifiedModelCache_init empty_world default_runner [] None))) ''/b_p0-1_superset_p0-1'' = Some 0
   \<and> cache (fst (snd (get_reference_model (fixed_env (Some ''/b'') (Inr (Some empty_model)))
         UnifiedModelCache_init empty_world default_runner [] None))) ''/b_superset_p0-1'' = None"
  by (simp add: get_cache_key_def fixed_env_def get_reference_model_def lookup_baseline_def
      lookup_superset_def UnifiedModelCache_init_def default_runner_def baseline_of_def
      call_loader_def new_object_def empty_world_def Let_def superset_key_string)

text \<open>
  C3, amended: when the reference bundle path resolves to \<open>p\<close>, the key of
  \<open>ReferenceModelCache.get_cache_key\<close> is \<open>p\<close> followed by \<^verbatim>\<open>_superset_p0-1\<close>, and the superset key
  of \<open>UnifiedModelCache.get_reference_model\<close> is \<open>p\<close> followed by \<^verbatim>\<open>_p0-1\<close> and then by
  \<^verbatim>\<open>_superset_p0-1\<close>: the same path in front and the same suffix at the end, but never the
  same key.
\<close>

theorem C3_reference_key_and_unified_key:
  assumes "ref_bundle_path env rnr x = Some p"
  shows "get_cache_key env rnr x = p @ ''_superset_p0-1''
       \<and> get_model_cache_key p (Some [0, 1]) @ ''_superset_p0-1'' = p @ ''_p0-1'' @ ''_superset_p0-1''
       \<and> get_cache_key env rnr x \<noteq> get_model_cache_key p (Some [0, 1]) @ ''_superset_p0-1''"
  using assms by (simp add: get_cache_key_def superset_key_string)

text \<open>
  The amended C3 at the bundle path \<^verbatim>\<open>/b\<close>.
\<close>

theorem C3_reference_key_and_unified_key_witness:
  "get_cache_key (fixed_env (Some ''/b'') (Inr None)) default_runner [] = ''/b_superset_p0-1''
   \<and> get_model_cache_key ''/b'' (Some [0, 1]) @ ''_superset_p0-1'' = ''/b_p0-1_superset_p0-1''"
  using C3_reference_key_and_unified_key [of "fixed_env (Some ''/b'') (Inr None)" default_runner "[]" "''/b''"]
  by (simp add: fixed_env_def)


lemma get_reference_model_baseline:
  assumes "method_to_model self (baseline_of rnr) = Some cache_key"
    and "cache self cache_key = Some model" and "heap w model \<noteq> None"
  shows "get_reference_model env self w rnr x requirements
     = (Return (Some model), self\<lparr>access_count := count_access (access_count self) cache_key\<rparr>, w)"
  using assms by (auto simp: get_reference_model_def lookup_baseline_def weak_deref_def)

text \<open>
  C10: once a model is registered under the baseline method of the runner and its weak
  reference is alive, \<open>get_reference_model\<close> returns that model for every parameter vector:
  the whole result is a term without the parameter vector, and the calls for two parameter
  vectors give the same result.
\<close>

theorem C10_baseline_answer_independent_of_x:
  assumes "method_to_model self (baseline_of rnr) = Some cache_key"
    and "cache self cache_key = Some model" and "heap w model \<noteq> None"
  shows "get_reference_model env self w rnr x1 requirements1
       = (Return (Some model), self\<lparr>access_count := count_access (access_count self) cache_key\<rparr>, w)
     \<and> get_reference_model env self w rnr x2 requirements2
       = get_reference_model env self w rnr x1 requirements1"
  using assms by (simp add: get_reference_model_baseline)

lemma register_method_model_registered:
  "\<exists>cache_key. method_to_model (register_method_model self w method model periods) method = Some cache_key
     \<and> cache (register_method_model self w method model periods) cache_key = Some model"
  by (simp add: register_method_model_def Let_def)

text \<open>
  C6: after \<open>register_method_model\<close> of a (live) model for the method \<open>method\<close> with periods
  \<^verbatim>\<open>[0, 1]\<close>, \<open>get_reference_model\<close> under a runner whose baseline method is \<open>method\<close> returns
  that very model and leaves the heap and the count of loader calls unchanged.
\<close>

theorem C6_registered_baseline_reused_without_load:
  assumes "heap w model \<noteq> None" and "baseline_of rnr = method"
  shows "fst (get_reference_model env (register_method_model self w method model (Some [0, 1])) w rnr x
              requirements) = Return (Some model)
       \<and> snd (snd (get_reference_model env (register_method_model self w method model (Some [0, 1])) w
              rnr x requirements)) = w
       \<and> loader_calls (snd (snd (get_reference_model env
              (register_method_model self w method model (Some [0, 1])) w rnr x requirements)))
         = loader_calls w"
proof -
  obtain cache_key where
    "method_to_model (register_method_model self w method model (Some [0, 1])) method = Some cache_key"
    "cache (register_method_model self w method model (Some [0, 1])) cache_key = Some model"
    using register_method_model_registered by blast
  with assms show ?thesis
    by (simp add: get_reference_model_baseline)
qed

text \<open>
  C6 at the method \<^verbatim>\<open>M\<close>, on a heap with one model and a loader count of 0.
\<close>

theorem C6_registered_baseline_reused_without_load_witness:
  "fst (get_reference_model (fixed_env (Some ''/b'') (Inr (Some empty_model)))
         (register_method_model UnifiedModelCache_init one_model_world ''M'' 0 (Some [0, 1]))
         one_model_world \<lparr>baseline_method = Some ''M'', ref_params = None\<rparr> [] None) = Return (Some 0)
   \<and> loader_calls (snd (snd (get_reference_model (fixed_env (Some ''/b'') (Inr (Some empty_model)))
         (register_method_model UnifiedModelCache_init one_model_world ''M'' 0 (Some [0, 1]))
         one_model_world \<lparr>baseline_method = Some ''M'', ref_params = None\<rparr> [] None))) = 0"
proof -
  have a: "heap one_model_world 0 \<noteq> None"
    by (simp add: one_model_world_def)
  have b: "baseline_of \<lparr>baseline_method = Some ''M'', ref_params = None\<rparr> = ''M''"
    by (simp add: baseline_of_def)
  have c: "loader_calls one_model_world = 0"
    by (simp add: one_model_world_def)
  from C6_registered_baseline_reused_without_load [OF a b,
      where env = "fixed_env (Some ''/b'') (Inr (Some empty_model))"
        and self = UnifiedModelCache_init and x = "[]" and requirements = None]
  show ?thesis
    by (simp add: c)
qed

text \<open>
  C10 at a cache with one model registered for \<^verbatim>\<open>M\<close>, for two parameter vectors.
\<close>

theorem C10_baseline_answer_independent_of_x_witness:
  "get_reference_model (fixed_env (Some ''/b'') (Inr (Some empty_model)))
      \<lparr>cache = [''M_bundle_p0-1'' \<mapsto> 0], strong_refs = [''M_bundle_p0-1'' \<mapsto> 0],
       access_count = [''M_bundle_p0-1'' \<mapsto> 1], method_to_model = [''M'' \<mapsto> ''M_bundle_p0-1'']\<rparr>
      one_model_world \<lparr>baseline_method = Some ''M'', ref_params = None\<rparr> [1, 2] None
   = (Return (Some 0),
      \<lparr>cache = [''M_bundle_p0-1'' \<mapsto> 0], strong_refs = [''M_bundle_p0-1'' \<mapsto> 0],
       access_count = [''M_bundle_p0-1'' \<mapsto> 2], method_to_model = [''M'' \<mapsto> ''M_bundle_p0-1'']\<rparr>,
      one_model_world)
   \<and> get_reference_model (fixed_env (Some ''/b'') (Inr (Some empty_model)))
      \<lparr>cache = [''M_bundle_p0-1'' \<mapsto> 0], strong_refs = [''M_bundle_p0-1'' \<mapsto> 0],
       access_count = [''M_bundle_p0-1'' \<mapsto> 1], method_to_model = [''M'' \<mapsto> ''M_bundle_p0-1'']\<rparr>
      one_model_world \<lparr>baseline_method = Some ''M'', ref_params = None\<rparr> [7] None
   = (Return (Some 0),
      \<lparr>cache = [''M_bundle_p0-1'' \<mapsto> 0], strong_refs = [''M_bundle_p0-1'' \<mapsto> 0],
       access_count = [''M_bundle_p0-1'' \<mapsto> 2], method_to_model = [''M'' \<mapsto> ''M_bundle_p0-1'']\<rparr>,
      one_model_world)"
proof -
  let ?self = "\<lparr>cache = [''M_bundle_p0-1'' \<mapsto> 0::nat], strong_refs = [''M_bundle_p0-1'' \<mapsto> 0::nat],
       access_count = [''M_bundle_p0-1'' \<mapsto> 1::nat], method_to_model = [''M'' \<mapsto> ''M_bundle_p0-1'']\<rparr>"
  let ?rnr = "\<lparr>baseline_method = Some ''M'', ref_params = None\<rparr>"
  have a: "method_to_model ?self (baseline_of ?rnr) = Some ''M_bundle_p0-1''"
    by (simp add: baseline_of_def)
  have b: "cache ?self ''M_bundle_p0-1'' = Some 0"
    by simp
  have c: "heap one_model_world 0 \<noteq> None"
    by (simp add: one_model_world_def)
  from C10_baseline_answer_independent_of_x [OF a b c,
      of "fixed_env (Some ''/b'') (Inr (Some empty_model))" "[1, 2]" None "[7]" None]
  show ?thesis
    by (simp add: count_access_def numeral_2_eq_2)
qed

section \<open>Properties of loading and of repeated lookups\<close>









end
